theory Spec2Isabelle
  imports Main
begin

section \<open>Data model of the wallet ledger (users/wallets/models.py)\<close>

text \<open>
  The two Django models \<open>UserWallet\<close> and \<open>WalletTransaction\<close> are embedded as
  records, their choice fields as datatypes. Every money column is a
  \<open>DecimalField\<close> with \<open>decimal_places=2\<close> and the serializers accept amounts
  of at most two decimal places, so an amount is a whole number of hundredths:
  \<open>Decimal('100.00')\<close> is \<open>10000\<close>. The amounts are only added, subtracted and
  compared, which is exact on \<open>Decimal\<close>; the width of the columns
  (\<open>max_digits\<close>) is not modelled. Free-form text columns that no operation
  reads (description, source, destination, metadata, fee, payment password,
  verification flags) and the audit columns are left out.
\<close>

type_synonym money = int

datatype currency = CNY | USD | EUR | GBP | JPY | HKD | TWD

datatype wallet_status = Normal | Frozen | Suspended | Closed

datatype transaction_type =
    TDeposit | TWithdraw | TTransferIn | TTransferOut | TPayment | TRefund
  | TFreeze | TUnfreeze | TFreezeWallet | TUnfreezeWallet
  | TAdjustment | TReward | TPenalty

datatype transaction_status =
    Pending | Processing | Completed | Failed | Cancelled | Refunded

subsection \<open>Timestamps\<close>

text \<open>
  A \<open>datetime\<close> carries the calendar fields Python's \<open>datetime\<close> object carries;
  the time of day is kept as microseconds since midnight, and all timestamps are read
  in one time zone. Ordering and the
  subtraction of \<open>timedelta(days=30)\<close> go through the proleptic Gregorian ordinal,
  computed as in the standard library (\<open>_is_leap\<close>, \<open>_days_before_year\<close>,
  \<open>_days_before_month\<close>, \<open>_ymd2ord\<close>).
\<close>

record datetime =
  dt_year :: int
  dt_month :: int
  dt_day :: int
  dt_micros :: int

type_synonym date = "int \<times> int \<times> int"

definition is_leap :: "int \<Rightarrow> bool" where
  "is_leap y = (y mod 4 = 0 \<and> (y mod 100 \<noteq> 0 \<or> y mod 400 = 0))"

definition days_before_year :: "int \<Rightarrow> int" where
  "days_before_year year =
     (let y = year - 1 in y * 365 + y div 4 - y div 100 + y div 400)"

definition days_in_month_table :: "int list" where
  "days_in_month_table = [31, 28, 31, 30, 31, 30, 31, 31, 30, 31, 30, 31]"

definition days_before_month :: "int \<Rightarrow> int \<Rightarrow> int" where
  "days_before_month year month =
     sum_list (take (nat (month - 1)) days_in_month_table)
       + (if month > 2 \<and> is_leap year then 1 else 0)"

definition ymd2ord :: "int \<Rightarrow> int \<Rightarrow> int \<Rightarrow> int" where
  "ymd2ord year month day = days_before_year year + days_before_month year month + day"

definition micros_per_day :: int where
  "micros_per_day = 86400000000"

definition to_micros :: "datetime \<Rightarrow> int" where
  "to_micros dt = ymd2ord (dt_year dt) (dt_month dt) (dt_day dt) * micros_per_day + dt_micros dt"

definition date_of :: "datetime \<Rightarrow> date" where
  "date_of dt = (dt_year dt, dt_month dt, dt_day dt)"

subsection \<open>Rows\<close>

record UserWallet =
  wallet_id :: nat
  user :: nat
  currency :: currency
  balance :: money
  frozen_balance :: money
  total_income :: money
  total_expense :: money
  wallet_status :: wallet_status
  daily_limit :: money
  monthly_limit :: money
  is_active :: bool
  last_transaction_at :: "datetime option"

record WalletTransaction =
  txn_id :: nat
  wallet :: nat
  transaction_type :: transaction_type
  amount :: money
  balance_after :: money
  status :: transaction_status
  reference_id :: string
  created_at :: datetime

text \<open>The database: the two tables, rows in insertion order.\<close>

record db =
  wallet_rows :: "UserWallet list"
  transaction_rows :: "WalletTransaction list"

subsection \<open>Failures\<close>

text \<open>
  \<open>can_spend\<close> returns a flag and a reason; the three refusals are what the
  specification calls AccountStatusError, AccountDisabledError and
  InsufficientFundsError. Every \<open>raise ValueError(...)\<close> of the source is one
  constructor of \<open>error\<close>, told apart by its message: InvalidAmount the
  "must be greater than 0" messages, InsufficientAvailable the refusal of
  \<open>freeze_amount\<close>, InsufficientFrozen that of \<open>unfreeze_amount\<close>,
  CannotWithdraw and CannotTransfer the refusals that quote the reason of
  \<open>can_spend\<close>, CurrencyMismatch that of \<open>transfer_to\<close>, RefundNotSupported
  that of \<open>process_refund\<close>. IntegrityError and MultipleObjectsReturned are
  the failures of the object manager.
\<close>

datatype reason =
    WalletStatusAbnormal wallet_status
  | WalletDisabled
  | InsufficientBalance
  | CanSpend

datatype error =
    InvalidAmount
  | InsufficientAvailable
  | InsufficientFrozen
  | CannotWithdraw reason
  | CannotTransfer reason
  | CurrencyMismatch
  | RefundNotSupported
  | IntegrityError
  | MultipleObjectsReturned

section \<open>Persistence\<close>

text \<open>
  \<open>save(update_fields=[...])\<close> is an UPDATE of the named columns of the row whose
  primary key is the object's. The objects handed to the methods are loaded from the
  tables, as every caller in views.py does, so the row exists.
\<close>

definition update_wallet_row :: "nat \<Rightarrow> (UserWallet \<Rightarrow> UserWallet) \<Rightarrow> db \<Rightarrow> db" where
  "update_wallet_row pk f d =
     d\<lparr>wallet_rows := map (\<lambda>r. if wallet_id r = pk then f r else r) (wallet_rows d)\<rparr>"

definition save_balance_frozen :: "UserWallet \<Rightarrow> db \<Rightarrow> db" where
  "save_balance_frozen self d =
     update_wallet_row (wallet_id self)
       (\<lambda>r. r\<lparr>balance := balance self, frozen_balance := frozen_balance self\<rparr>) d"

definition save_balance_income :: "UserWallet \<Rightarrow> db \<Rightarrow> db" where
  "save_balance_income self d =
     update_wallet_row (wallet_id self)
       (\<lambda>r. r\<lparr>balance := balance self, total_income := total_income self,
              last_transaction_at := last_transaction_at self\<rparr>) d"

definition save_balance_expense :: "UserWallet \<Rightarrow> db \<Rightarrow> db" where
  "save_balance_expense self d =
     update_wallet_row (wallet_id self)
       (\<lambda>r. r\<lparr>balance := balance self, total_expense := total_expense self,
              last_transaction_at := last_transaction_at self\<rparr>) d"

definition save_wallet_status :: "UserWallet \<Rightarrow> db \<Rightarrow> db" where
  "save_wallet_status self d =
     update_wallet_row (wallet_id self) (\<lambda>r. r\<lparr>wallet_status := wallet_status self\<rparr>) d"

definition save_transaction_status :: "WalletTransaction \<Rightarrow> db \<Rightarrow> db" where
  "save_transaction_status self d =
     d\<lparr>transaction_rows :=
         map (\<lambda>r. if txn_id r = txn_id self then r\<lparr>status := status self\<rparr> else r)
           (transaction_rows d)\<rparr>"

text \<open>An auto-increment primary key: one more than every key in the table.\<close>

definition next_pk :: "nat list \<Rightarrow> nat" where
  "next_pk pks = Suc (fold max pks 0)"

section \<open>UserWallet methods\<close>

definition total_balance :: "UserWallet \<Rightarrow> money" where
  "total_balance self = balance self + frozen_balance self"

definition can_spend :: "UserWallet \<Rightarrow> money \<Rightarrow> bool \<times> reason" where
  "can_spend self amt =
     (if wallet_status self \<noteq> Normal then (False, WalletStatusAbnormal (wallet_status self))
      else if \<not> is_active self then (False, WalletDisabled)
      else if balance self < amt then (False, InsufficientBalance)
      else (True, CanSpend))"

text \<open>
  \<open>create_transaction\<close> inserts one row: \<open>balance_after\<close> is the object's balance at
  the moment of the call, \<open>status\<close> the column default, \<open>created_at\<close> the clock
  (\<open>auto_now_add\<close>).
\<close>

definition create_transaction ::
  "UserWallet \<Rightarrow> db \<Rightarrow> datetime \<Rightarrow> transaction_type \<Rightarrow> money \<Rightarrow> string
     \<Rightarrow> WalletTransaction \<times> db" where
  "create_transaction self d now ty amt ref =
     (let t = \<lparr>txn_id = next_pk (map txn_id (transaction_rows d)),
                wallet = wallet_id self,
                transaction_type = ty,
                amount = amt,
                balance_after = balance self,
                status = Completed,
                reference_id = ref,
                created_at = now\<rparr>
      in (t, d\<lparr>transaction_rows := transaction_rows d @ [t]\<rparr>))"

definition freeze_amount ::
  "UserWallet \<Rightarrow> db \<Rightarrow> datetime \<Rightarrow> money \<Rightarrow> (error + unit) \<times> UserWallet \<times> db" where
  "freeze_amount self d now amt =
     (if amt \<le> 0 then (Inl InvalidAmount, self, d)
      else if balance self < amt then (Inl InsufficientAvailable, self, d)
      else
        let self1 = self\<lparr>balance := balance self - amt\<rparr>;
            self2 = self1\<lparr>frozen_balance := frozen_balance self1 + amt\<rparr>;
            d1 = save_balance_frozen self2 d;
            (t, d2) = create_transaction self2 d1 now TFreeze amt []
        in (Inr (), self2, d2))"

definition unfreeze_amount ::
  "UserWallet \<Rightarrow> db \<Rightarrow> datetime \<Rightarrow> money \<Rightarrow> (error + unit) \<times> UserWallet \<times> db" where
  "unfreeze_amount self d now amt =
     (if amt \<le> 0 then (Inl InvalidAmount, self, d)
      else if frozen_balance self < amt then (Inl InsufficientFrozen, self, d)
      else
        let self1 = self\<lparr>frozen_balance := frozen_balance self - amt\<rparr>;
            self2 = self1\<lparr>balance := balance self1 + amt\<rparr>;
            d1 = save_balance_frozen self2 d;
            (t, d2) = create_transaction self2 d1 now TUnfreeze amt []
        in (Inr (), self2, d2))"

definition deposit ::
  "UserWallet \<Rightarrow> db \<Rightarrow> datetime \<Rightarrow> money \<Rightarrow> string
     \<Rightarrow> (error + WalletTransaction) \<times> UserWallet \<times> db" where
  "deposit self d now amt ref =
     (if amt \<le> 0 then (Inl InvalidAmount, self, d)
      else
        let self1 = self\<lparr>balance := balance self + amt\<rparr>;
            self2 = self1\<lparr>total_income := total_income self1 + amt\<rparr>;
            self3 = self2\<lparr>last_transaction_at := Some now\<rparr>;
            d1 = save_balance_income self3 d;
            (t, d2) = create_transaction self3 d1 now TDeposit amt ref
        in (Inr t, self3, d2))"

definition withdraw ::
  "UserWallet \<Rightarrow> db \<Rightarrow> datetime \<Rightarrow> money \<Rightarrow> string
     \<Rightarrow> (error + WalletTransaction) \<times> UserWallet \<times> db" where
  "withdraw self d now amt ref =
     (if amt \<le> 0 then (Inl InvalidAmount, self, d)
      else
        let (ok, why) = can_spend self amt in
        if \<not> ok then (Inl (CannotWithdraw why), self, d)
        else
          let self1 = self\<lparr>balance := balance self - amt\<rparr>;
              self2 = self1\<lparr>total_expense := total_expense self1 + amt\<rparr>;
              self3 = self2\<lparr>last_transaction_at := Some now\<rparr>;
              d1 = save_balance_expense self3 d;
              (t, d2) = create_transaction self3 d1 now TWithdraw amt ref
          in (Inr t, self3, d2))"

text \<open>
  \<open>transfer_to\<close> works on two objects, \<open>self\<close> and \<open>target_wallet\<close>; the callers
  load them separately, so they are two values here.
\<close>

definition transfer_to ::
  "UserWallet \<Rightarrow> UserWallet \<Rightarrow> db \<Rightarrow> datetime \<Rightarrow> money \<Rightarrow> string
     \<Rightarrow> (error + WalletTransaction \<times> WalletTransaction) \<times> UserWallet \<times> UserWallet \<times> db" where
  "transfer_to self target_wallet d now amt ref =
     (if amt \<le> 0 then (Inl InvalidAmount, self, target_wallet, d)
      else if currency target_wallet \<noteq> currency self
        then (Inl CurrencyMismatch, self, target_wallet, d)
      else
        let (ok, why) = can_spend self amt in
        if \<not> ok then (Inl (CannotTransfer why), self, target_wallet, d)
        else
          let self1 = self\<lparr>balance := balance self - amt\<rparr>;
              self2 = self1\<lparr>total_expense := total_expense self1 + amt\<rparr>;
              self3 = self2\<lparr>last_transaction_at := Some now\<rparr>;
              d1 = save_balance_expense self3 d;
              target1 = target_wallet\<lparr>balance := balance target_wallet + amt\<rparr>;
              target2 = target1\<lparr>total_income := total_income target1 + amt\<rparr>;
              target3 = target2\<lparr>last_transaction_at := Some now\<rparr>;
              d2 = save_balance_income target3 d1;
              (transfer_out, d3) = create_transaction self3 d2 now TTransferOut amt ref;
              (transfer_in, d4) = create_transaction target3 d3 now TTransferIn amt ref
          in (Inr (transfer_out, transfer_in), self3, target3, d4))"

definition expense_lookup :: "transaction_type list" where
  "expense_lookup = [TWithdraw, TTransferOut, TPayment]"

definition get_daily_spent :: "UserWallet \<Rightarrow> db \<Rightarrow> datetime \<Rightarrow> date option \<Rightarrow> money" where
  "get_daily_spent self d now date_arg =
     (let date = (case date_arg of None \<Rightarrow> date_of now | Some dd \<Rightarrow> dd);
          daily_transactions =
            filter (\<lambda>t. wallet t = wallet_id self
                       \<and> transaction_type t \<in> set expense_lookup
                       \<and> date_of (created_at t) = date) (transaction_rows d)
      in sum_list (map amount daily_transactions))"

text \<open>\<open>if not year\<close> holds for \<open>None\<close> and for \<open>0\<close>.\<close>

definition falsy :: "int option \<Rightarrow> bool" where
  "falsy v = (case v of None \<Rightarrow> True | Some n \<Rightarrow> n = 0)"

definition get_monthly_spent ::
  "UserWallet \<Rightarrow> db \<Rightarrow> datetime \<Rightarrow> int option \<Rightarrow> int option \<Rightarrow> money" where
  "get_monthly_spent self d now year_arg month_arg =
     (let year = (if falsy year_arg then dt_year now else the year_arg);
          month = (if falsy month_arg then dt_month now else the month_arg);
          monthly_transactions =
            filter (\<lambda>t. wallet t = wallet_id self
                       \<and> transaction_type t \<in> set expense_lookup
                       \<and> dt_year (created_at t) = year
                       \<and> dt_month (created_at t) = month) (transaction_rows d)
      in sum_list (map amount monthly_transactions))"

definition freeze_wallet :: "UserWallet \<Rightarrow> db \<Rightarrow> datetime \<Rightarrow> UserWallet \<times> db" where
  "freeze_wallet self d now =
     (let self1 = self\<lparr>wallet_status := Frozen\<rparr>;
          d1 = save_wallet_status self1 d;
          (t, d2) = create_transaction self1 d1 now TFreezeWallet 0 []
      in (self1, d2))"

definition unfreeze_wallet :: "UserWallet \<Rightarrow> db \<Rightarrow> datetime \<Rightarrow> UserWallet \<times> db" where
  "unfreeze_wallet self d now =
     (let self1 = self\<lparr>wallet_status := Normal\<rparr>;
          d1 = save_wallet_status self1 d;
          (t, d2) = create_transaction self1 d1 now TUnfreezeWallet 0 []
      in (self1, d2))"

section \<open>WalletTransaction methods\<close>

definition is_income :: "WalletTransaction \<Rightarrow> bool" where
  "is_income self = (transaction_type self \<in> set [TDeposit, TTransferIn, TRefund, TReward])"

definition is_expense :: "WalletTransaction \<Rightarrow> bool" where
  "is_expense self = (transaction_type self \<in> set [TWithdraw, TTransferOut, TPayment, TPenalty])"

definition can_refund :: "WalletTransaction \<Rightarrow> datetime \<Rightarrow> bool" where
  "can_refund self now =
     (transaction_type self \<in> set [TPayment]
      \<and> status self = Completed
      \<and> to_micros (created_at self) \<ge> to_micros now - 30 * micros_per_day)"

text \<open>\<open>str(self.id)\<close>: the decimal digits of the primary key.\<close>

fun str_nat :: "nat \<Rightarrow> string" where
  "str_nat n =
     (if n < 10 then [char_of (48 + n)]
      else str_nat (n div 10) @ [char_of (48 + n mod 10)])"

declare str_nat.simps [simp del]

text \<open>
  \<open>process_refund\<close> works on the transaction object and on \<open>self.wallet\<close>, the
  wallet object its foreign key loads.
\<close>

definition process_refund ::
  "WalletTransaction \<Rightarrow> UserWallet \<Rightarrow> db \<Rightarrow> datetime
     \<Rightarrow> (error + WalletTransaction) \<times> WalletTransaction \<times> UserWallet \<times> db" where
  "process_refund self self_wallet d now =
     (if \<not> can_refund self now then (Inl RefundNotSupported, self, self_wallet, d)
      else
        let w1 = self_wallet\<lparr>balance := balance self_wallet + amount self\<rparr>;
            w2 = w1\<lparr>total_income := total_income w1 + amount self\<rparr>;
            w3 = w2\<lparr>last_transaction_at := Some now\<rparr>;
            d1 = save_balance_income w3 d;
            self1 = self\<lparr>status := Refunded\<rparr>;
            d2 = save_transaction_status self1 d1;
            (t, d3) = create_transaction w3 d2 now TRefund (amount self) (str_nat (txn_id self))
        in (Inr t, self1, w3, d3))"

section \<open>The object manager\<close>

text \<open>
  \<open>user\<close> is a \<open>OneToOneField\<close>: the column is unique, and an INSERT with a user
  that already owns a row fails with IntegrityError. A fresh row takes the column
  defaults of the model. \<open>get_or_create(user=u, defaults={'currency': c})\<close> looks the
  row up by \<open>user\<close> alone and uses \<open>c\<close> only when it inserts.
\<close>

definition new_wallet :: "nat \<Rightarrow> nat \<Rightarrow> currency \<Rightarrow> UserWallet" where
  "new_wallet pk u c =
     \<lparr>wallet_id = pk, user = u, currency = c, balance = 0, frozen_balance = 0,
      total_income = 0, total_expense = 0, wallet_status = Normal,
      daily_limit = 1000000, monthly_limit = 10000000, is_active = True,
      last_transaction_at = None\<rparr>"

definition objects_create :: "db \<Rightarrow> nat \<Rightarrow> currency \<Rightarrow> (error + UserWallet) \<times> db" where
  "objects_create d u c =
     (if list_ex (\<lambda>r. user r = u) (wallet_rows d) then (Inl IntegrityError, d)
      else
        let w = new_wallet (next_pk (map wallet_id (wallet_rows d))) u c
        in (Inr w, d\<lparr>wallet_rows := wallet_rows d @ [w]\<rparr>))"

definition objects_get_or_create ::
  "db \<Rightarrow> nat \<Rightarrow> currency \<Rightarrow> (error + UserWallet \<times> bool) \<times> db" where
  "objects_get_or_create d u c =
     (case filter (\<lambda>r. user r = u) (wallet_rows d) of
        [] \<Rightarrow> (case objects_create d u c of
                 (Inl e, d1) \<Rightarrow> (Inl e, d1)
               | (Inr w, d1) \<Rightarrow> (Inr (w, True), d1))
      | [w] \<Rightarrow> (Inr (w, False), d)
      | _ \<Rightarrow> (Inl MultipleObjectsReturned, d))"

section \<open>Sequences of operations on the database\<close>

text \<open>
  A caller loads the objects by primary key (\<open>get_object\<close>, the foreign key of a
  transaction), calls the method and drops the objects; what stays is the database.
  A key that names no row is a 404 and changes nothing.
\<close>

datatype operation =
    OpDeposit nat money
  | OpWithdraw nat money
  | OpFreezeAmount nat money
  | OpUnfreezeAmount nat money
  | OpTransferTo nat nat money
  | OpProcessRefund nat

definition get_wallet :: "db \<Rightarrow> nat \<Rightarrow> UserWallet option" where
  "get_wallet d pk = find (\<lambda>r. wallet_id r = pk) (wallet_rows d)"

definition get_transaction :: "db \<Rightarrow> nat \<Rightarrow> WalletTransaction option" where
  "get_transaction d pk = find (\<lambda>r. txn_id r = pk) (transaction_rows d)"

fun apply_operation :: "db \<Rightarrow> datetime \<times> operation \<Rightarrow> db" where
  "apply_operation d (now, OpDeposit pk amt) =
     (case get_wallet d pk of None \<Rightarrow> d
      | Some w \<Rightarrow> snd (snd (deposit w d now amt [])))"
| "apply_operation d (now, OpWithdraw pk amt) =
     (case get_wallet d pk of None \<Rightarrow> d
      | Some w \<Rightarrow> snd (snd (withdraw w d now amt [])))"
| "apply_operation d (now, OpFreezeAmount pk amt) =
     (case get_wallet d pk of None \<Rightarrow> d
      | Some w \<Rightarrow> snd (snd (freeze_amount w d now amt)))"
| "apply_operation d (now, OpUnfreezeAmount pk amt) =
     (case get_wallet d pk of None \<Rightarrow> d
      | Some w \<Rightarrow> snd (snd (unfreeze_amount w d now amt)))"
| "apply_operation d (now, OpTransferTo pk target_pk amt) =
     (case get_wallet d pk of None \<Rightarrow> d
      | Some w \<Rightarrow>
          (case get_wallet d target_pk of None \<Rightarrow> d
           | Some tw \<Rightarrow> snd (snd (snd (transfer_to w tw d now amt [])))))"
| "apply_operation d (now, OpProcessRefund pk) =
     (case get_transaction d pk of None \<Rightarrow> d
      | Some t \<Rightarrow>
          (case get_wallet d (wallet t) of None \<Rightarrow> d
           | Some w \<Rightarrow> snd (snd (snd (process_refund t w d now)))))"

text \<open>The states a sequence of operations goes through, the first one included.\<close>

fun trace :: "db \<Rightarrow> (datetime \<times> operation) list \<Rightarrow> db list" where
  "trace d [] = [d]"
| "trace d (x # xs) = d # trace (apply_operation d x) xs"

definition balances_nonneg :: "db \<Rightarrow> bool" where
  "balances_nonneg d = list_all (\<lambda>r. 0 \<le> balance r \<and> 0 \<le> frozen_balance r) (wallet_rows d)"

definition amounts_nonneg :: "db \<Rightarrow> bool" where
  "amounts_nonneg d = list_all (\<lambda>t. 0 \<le> amount t) (transaction_rows d)"

definition unique_users :: "db \<Rightarrow> bool" where
  "unique_users d = distinct (map user (wallet_rows d))"

section \<open>Worked data\<close>

text \<open>
  Three wallets holding 1.00, 0.50 and 0.20, the third in another currency, and a
  completed payment of 0.50 from the first, made on 1 March 2024; the clock \<open>noon\<close>
  is 15 March 2024, 12:00.
\<close>

definition noon :: datetime where
  "noon = \<lparr>dt_year = 2024, dt_month = 3, dt_day = 15, dt_micros = 43200000000\<rparr>"

definition alice :: UserWallet where
  "alice = (new_wallet 11 101 CNY)\<lparr>balance := 100\<rparr>"

definition bob :: UserWallet where
  "bob = (new_wallet 12 102 CNY)\<lparr>balance := 50\<rparr>"

definition carol :: UserWallet where
  "carol = (new_wallet 13 103 USD)\<lparr>balance := 20\<rparr>"

definition payment_row :: WalletTransaction where
  "payment_row =
     \<lparr>txn_id = 41, wallet = 11, transaction_type = TPayment, amount = 50,
      balance_after = 100, status = Completed, reference_id = [],
      created_at = noon\<lparr>dt_day := 1\<rparr>\<rparr>"

definition bank :: db where
  "bank = \<lparr>wallet_rows = [alice, bob, carol], transaction_rows = [payment_row]\<rparr>"

section \<open>The period aggregates as the specification words them\<close>

text \<open>
  \<open>dailySpent\<close> and \<open>monthlySpent\<close> of the specification: the sum of \<open>amount\<close>
  over the entries of the ledger that belong to the account, have one of the three
  kinds withdraw, transfer_out, payment, and were created on the date, respectively
  in the month of the year. Every entry of the ledger contributes its amount or 0.
\<close>

definition spent_kind :: "transaction_type \<Rightarrow> bool" where
  "spent_kind k = (k = TWithdraw \<or> k = TTransferOut \<or> k = TPayment)"

definition dailySpent :: "nat \<Rightarrow> WalletTransaction list \<Rightarrow> date \<Rightarrow> money" where
  "dailySpent account ledger day =
     (\<Sum>e\<leftarrow>ledger. if wallet e = account \<and> spent_kind (transaction_type e)
                       \<and> date_of (created_at e) = day
                    then amount e else 0)"

definition monthlySpent :: "nat \<Rightarrow> WalletTransaction list \<Rightarrow> int \<Rightarrow> int \<Rightarrow> money" where
  "monthlySpent account ledger y m =
     (\<Sum>e\<leftarrow>ledger. if wallet e = account \<and> spent_kind (transaction_type e)
                       \<and> dt_year (created_at e) = y \<and> dt_month (created_at e) = m
                    then amount e else 0)"

text \<open>What a caller sees of a failure: the error, or nothing when the call succeeded.\<close>

definition failure :: "error + 'a \<Rightarrow> error option" where
  "failure res = (case res of Inl e \<Rightarrow> Some e | Inr v \<Rightarrow> None)"

definition busy_bank :: db where
  "busy_bank = bank\<lparr>transaction_rows :=
     [payment_row,
      payment_row\<lparr>txn_id := 42, transaction_type := TDeposit, amount := 7\<rparr>,
      payment_row\<lparr>txn_id := 43, transaction_type := TWithdraw, amount := 20, created_at := noon\<rparr>,
      payment_row\<lparr>txn_id := 44, wallet := 12\<rparr>,
      payment_row\<lparr>txn_id := 45, transaction_type := TTransferOut, amount := 5,
                  created_at := noon\<lparr>dt_month := 2\<rparr>\<rparr>]\<rparr>"

section \<open>Facts about the row insert and the column updates\<close>

lemma create_transaction_rows:
  "transaction_rows (snd (create_transaction w d now ty a r)) =
     transaction_rows d @ [fst (create_transaction w d now ty a r)]"
  by (simp add: create_transaction_def Let_def)

lemma create_transaction_wallets:
  "wallet_rows (snd (create_transaction w d now ty a r)) = wallet_rows d"
  by (simp add: create_transaction_def Let_def)

lemma create_transaction_fields:
  "wallet (fst (create_transaction w d now ty a r)) = wallet_id w"
  "transaction_type (fst (create_transaction w d now ty a r)) = ty"
  "amount (fst (create_transaction w d now ty a r)) = a"
  "balance_after (fst (create_transaction w d now ty a r)) = balance w"
  "status (fst (create_transaction w d now ty a r)) = Completed"
  "reference_id (fst (create_transaction w d now ty a r)) = r"
  "created_at (fst (create_transaction w d now ty a r)) = now"
  by (simp_all add: create_transaction_def Let_def)

lemma save_transaction_rows:
  "transaction_rows (save_balance_frozen w d) = transaction_rows d"
  "transaction_rows (save_balance_income w d) = transaction_rows d"
  "transaction_rows (save_balance_expense w d) = transaction_rows d"
  "transaction_rows (save_wallet_status w d) = transaction_rows d"
  by (simp_all add: save_balance_frozen_def save_balance_income_def save_balance_expense_def
        save_wallet_status_def update_wallet_row_def)

section \<open>The eligibility check\<close>

text \<open>
  Claim C7. \<open>can_spend\<close> reports the first refusal that applies, in a fixed order: a
  wallet status other than normal (whatever \<open>is_active\<close> and the balance are), then
  a wallet that is not active, then a balance below the amount; when none applies it
  reports that the amount can be spent.
\<close>

theorem can_spend_priority:
  "(wallet_status self \<noteq> Normal \<longrightarrow>
      can_spend self amt = (False, WalletStatusAbnormal (wallet_status self)))
   \<and> (wallet_status self = Normal \<and> \<not> is_active self \<longrightarrow>
      can_spend self amt = (False, WalletDisabled))
   \<and> (wallet_status self = Normal \<and> is_active self \<and> balance self < amt \<longrightarrow>
      can_spend self amt = (False, InsufficientBalance))
   \<and> (wallet_status self = Normal \<and> is_active self \<and> amt \<le> balance self \<longrightarrow>
      can_spend self amt = (True, CanSpend))"
  by (simp add: can_spend_def)

theorem can_spend_priority_witness:
  "can_spend (alice\<lparr>wallet_status := Frozen, is_active := False\<rparr>) 500
       = (False, WalletStatusAbnormal Frozen)
   \<and> can_spend (alice\<lparr>is_active := False\<rparr>) 500 = (False, WalletDisabled)
   \<and> can_spend alice 500 = (False, InsufficientBalance)
   \<and> can_spend alice 100 = (True, CanSpend)"
  using can_spend_priority [where self = "alice\<lparr>wallet_status := Frozen, is_active := False\<rparr>"
          and amt = 500]
        can_spend_priority [where self = "alice\<lparr>is_active := False\<rparr>" and amt = 500]
        can_spend_priority [where self = alice and amt = 500]
        can_spend_priority [where self = alice and amt = 100]
  by (simp add: alice_def new_wallet_def)

section \<open>Freezing and unfreezing an amount\<close>

text \<open>
  Claim C10. On a wallet whose frozen balance is not negative, and for an amount
  \<open>a\<close> with \<open>0 < a \<le> balance\<close>, \<open>freeze_amount\<close> succeeds and leaves the total
  balance (available plus frozen) as it was; \<open>unfreeze_amount\<close> of the same amount
  right after it succeeds too and gives back the balance and the frozen balance from
  before the freeze. Neither touches \<open>total_income\<close> or \<open>total_expense\<close>; the
  object after the round trip is the object before it.
\<close>

theorem freeze_unfreeze_round_trip:
  assumes "0 < a" and "a \<le> balance w" and "0 \<le> frozen_balance w"
  shows "case freeze_amount w d now a of (r1, w1, d1) \<Rightarrow>
           r1 = Inr ()
           \<and> total_balance w1 = total_balance w
           \<and> total_income w1 = total_income w \<and> total_expense w1 = total_expense w
           \<and> (case unfreeze_amount w1 d1 now' a of (r2, w2, d2) \<Rightarrow>
                 r2 = Inr ()
                 \<and> balance w2 = balance w \<and> frozen_balance w2 = frozen_balance w
                 \<and> total_income w2 = total_income w \<and> total_expense w2 = total_expense w
                 \<and> w2 = w)"
  using assms
  by (simp add: freeze_amount_def unfreeze_amount_def total_balance_def Let_def
        split: prod.splits)

theorem freeze_unfreeze_round_trip_witness:
  "(0::int) < 30 \<and> 30 \<le> balance alice \<and> 0 \<le> frozen_balance alice
   \<and> (case freeze_amount alice bank noon 30 of (r1, w1, d1) \<Rightarrow>
         r1 = Inr () \<and> balance w1 = 70 \<and> frozen_balance w1 = 30
         \<and> (case unfreeze_amount w1 d1 noon 30 of (r2, w2, d2) \<Rightarrow>
               r2 = Inr () \<and> balance w2 = 100 \<and> frozen_balance w2 = 0))"
  using freeze_unfreeze_round_trip
          [where a = 30 and w = alice and d = bank and now = noon and now' = noon]
  by (simp add: alice_def new_wallet_def freeze_amount_def unfreeze_amount_def Let_def
        split: prod.splits)

section \<open>Failures write nothing\<close>

text \<open>
  Claim C6. Every check of an operation comes before its first assignment: when
  \<open>deposit\<close>, \<open>withdraw\<close>, \<open>freeze_amount\<close>, \<open>unfreeze_amount\<close>, \<open>transfer_to\<close>
  or \<open>process_refund\<close> fails, the objects it was called on and both tables are what
  they were, so the balance, the frozen balance, both running totals and the number
  of ledger rows are unchanged. A withdrawal or transfer that \<open>can_spend\<close> refuses,
  a freeze above the balance, an unfreeze above the frozen balance and a refund that
  \<open>can_refund\<close> refuses are such failures.
\<close>

theorem failed_precondition_no_write:
  "(isl (fst (deposit w d now a r)) \<longrightarrow> snd (deposit w d now a r) = (w, d))
   \<and> (isl (fst (withdraw w d now a r)) \<longrightarrow> snd (withdraw w d now a r) = (w, d))
   \<and> (isl (fst (freeze_amount w d now a)) \<longrightarrow> snd (freeze_amount w d now a) = (w, d))
   \<and> (isl (fst (unfreeze_amount w d now a)) \<longrightarrow> snd (unfreeze_amount w d now a) = (w, d))
   \<and> (isl (fst (transfer_to w tw d now a r)) \<longrightarrow> snd (transfer_to w tw d now a r) = (w, tw, d))
   \<and> (isl (fst (process_refund t w d now)) \<longrightarrow> snd (process_refund t w d now) = (t, w, d))
   \<and> (\<not> fst (can_spend w a) \<longrightarrow> isl (fst (withdraw w d now a r)))
   \<and> (\<not> fst (can_spend w a) \<longrightarrow> isl (fst (transfer_to w tw d now a r)))
   \<and> (balance w < a \<longrightarrow> isl (fst (freeze_amount w d now a)))
   \<and> (frozen_balance w < a \<longrightarrow> isl (fst (unfreeze_amount w d now a)))
   \<and> (\<not> can_refund t now \<longrightarrow> isl (fst (process_refund t w d now)))"
  by (simp add: deposit_def withdraw_def freeze_amount_def unfreeze_amount_def
        transfer_to_def process_refund_def Let_def split: prod.splits)

theorem failed_precondition_no_write_witness:
  "\<not> fst (can_spend alice 150)
   \<and> fst (withdraw alice bank noon 150 []) = Inl (CannotWithdraw InsufficientBalance)
   \<and> snd (withdraw alice bank noon 150 []) = (alice, bank)
   \<and> fst (transfer_to alice bob bank noon 150 []) = Inl (CannotTransfer InsufficientBalance)
   \<and> snd (transfer_to alice bob bank noon 150 []) = (alice, bob, bank)
   \<and> fst (deposit alice bank noon 0 []) = Inl InvalidAmount
   \<and> snd (deposit alice bank noon 0 []) = (alice, bank)
   \<and> balance alice < 150
   \<and> fst (freeze_amount alice bank noon 150) = Inl InsufficientAvailable
   \<and> snd (freeze_amount alice bank noon 150) = (alice, bank)
   \<and> frozen_balance alice < 150
   \<and> fst (unfreeze_amount alice bank noon 150) = Inl InsufficientFrozen
   \<and> snd (unfreeze_amount alice bank noon 150) = (alice, bank)
   \<and> \<not> can_refund payment_row (noon\<lparr>dt_month := 5\<rparr>)
   \<and> fst (process_refund payment_row alice bank (noon\<lparr>dt_month := 5\<rparr>)) = Inl RefundNotSupported
   \<and> snd (process_refund payment_row alice bank (noon\<lparr>dt_month := 5\<rparr>))
        = (payment_row, alice, bank)"
proof -
  have cs: "can_spend alice 150 = (False, InsufficientBalance)"
    by (simp add: alice_def new_wallet_def can_spend_def)
  have cr: "\<not> can_refund payment_row (noon\<lparr>dt_month := 5\<rparr>)"
    by (simp add: can_refund_def payment_row_def noon_def to_micros_def ymd2ord_def
       days_before_year_def days_before_month_def days_in_month_table_def is_leap_def micros_per_day_def)
  have b: "balance alice = 100" "frozen_balance alice = 0" "currency alice = currency bob"
    by (simp_all add: alice_def bob_def new_wallet_def)
  show ?thesis
    using failed_precondition_no_write
            [where w = alice and d = bank and now = noon and a = 150 and r = "[]" and tw = bob
               and t = payment_row]
          failed_precondition_no_write
            [where w = alice and d = bank and now = noon and a = 0 and r = "[]" and tw = bob
               and t = payment_row]
          failed_precondition_no_write
            [where w = alice and d = bank and now = "noon\<lparr>dt_month := 5\<rparr>" and a = 150
               and r = "[]" and tw = bob and t = payment_row]
    by (simp add: cs cr b withdraw_def transfer_to_def deposit_def freeze_amount_def
          unfreeze_amount_def process_refund_def)
qed

section \<open>Transfers\<close>

lemma find_update_row:
  assumes "\<And>r. wallet_id (f r) = wallet_id r"
  shows "find (\<lambda>r. wallet_id r = pk) (map (\<lambda>r. if wallet_id r = k then f r else r) rs)
           = map_option (\<lambda>r. if wallet_id r = k then f r else r)
               (find (\<lambda>r. wallet_id r = pk) rs)"
  by (induction rs) (simp_all add: assms)

lemma get_wallet_update_row:
  assumes "\<And>r. wallet_id (f r) = wallet_id r"
  shows "get_wallet (update_wallet_row k f d) pk
           = map_option (\<lambda>r. if wallet_id r = k then f r else r) (get_wallet d pk)"
  by (simp add: get_wallet_def update_wallet_row_def find_update_row assms)

lemma update_wallet_row_transactions:
  "transaction_rows (update_wallet_row k f d) = transaction_rows d"
  by (simp add: update_wallet_row_def)

lemma get_wallet_create_transaction:
  "get_wallet (snd (create_transaction w d now ty a r)) pk = get_wallet d pk"
  by (simp add: get_wallet_def create_transaction_wallets)

lemma transfer_to_success:
  assumes "0 < amt" and "currency tw = currency w" and "fst (can_spend w amt)"
  shows "transfer_to w tw d now amt ref =
    (let w' = w\<lparr>balance := balance w - amt, total_expense := total_expense w + amt,
                last_transaction_at := Some now\<rparr>;
         tw' = tw\<lparr>balance := balance tw + amt, total_income := total_income tw + amt,
                last_transaction_at := Some now\<rparr>;
         d2 = save_balance_income tw' (save_balance_expense w' d);
         out = create_transaction w' d2 now TTransferOut amt ref;
         inn = create_transaction tw' (snd out) now TTransferIn amt ref
     in (Inr (fst out, fst inn), w', tw', snd inn))"
proof (cases "can_spend w amt")
  case (Pair ok why)
  with assms show ?thesis
    by (simp add: transfer_to_def Let_def split: prod.splits)
qed

text \<open>
  Claim C2, as amended. For a transfer of an amount \<open>amt > 0\<close> between two wallets
  of the same currency that \<open>can_spend\<close> allows on the sender: the sender's
  balance goes down by exactly \<open>amt\<close>, the receiver's balance goes up by exactly
  \<open>amt\<close>, the frozen balances stay, so the sum of the two total balances is
  unchanged; exactly two rows are appended, a transfer-out row of the sender and a
  transfer-in row of the receiver; and when the two objects were loaded from two
  different rows, the rows afterwards are the objects afterwards. With \<open>amt > 0\<close>
  and different currencies the transfer fails with the currency mismatch and changes
  nothing. With \<open>amt \<le> 0\<close> it fails with the invalid amount, whatever the
  currencies are, and changes nothing.
\<close>

theorem transfer_conservation:
  "(0 < amt \<and> currency tw = currency w \<and> fst (can_spend w amt) \<longrightarrow>
      (case transfer_to w tw d now amt ref of
         (Inl e, w', tw', d') \<Rightarrow> False
       | (Inr (t_out, t_in), w', tw', d') \<Rightarrow>
           balance w' = balance w - amt
           \<and> balance tw' = balance tw + amt
           \<and> frozen_balance w' = frozen_balance w
           \<and> frozen_balance tw' = frozen_balance tw
           \<and> total_balance w' + total_balance tw' = total_balance w + total_balance tw
           \<and> transaction_rows d' = transaction_rows d @ [t_out, t_in]
           \<and> wallet t_out = wallet_id w \<and> transaction_type t_out = TTransferOut
           \<and> amount t_out = amt
           \<and> wallet t_in = wallet_id tw \<and> transaction_type t_in = TTransferIn
           \<and> amount t_in = amt
           \<and> (wallet_id w \<noteq> wallet_id tw
                \<and> get_wallet d (wallet_id w) = Some w
                \<and> get_wallet d (wallet_id tw) = Some tw \<longrightarrow>
                get_wallet d' (wallet_id w) = Some w'
                \<and> get_wallet d' (wallet_id tw) = Some tw')))
   \<and> (0 < amt \<and> currency tw \<noteq> currency w \<longrightarrow>
        transfer_to w tw d now amt ref = (Inl CurrencyMismatch, w, tw, d))
   \<and> (amt \<le> 0 \<longrightarrow> transfer_to w tw d now amt ref = (Inl InvalidAmount, w, tw, d))"
proof (intro conjI impI)
  assume a: "0 < amt \<and> currency tw = currency w \<and> fst (can_spend w amt)"
  show "case transfer_to w tw d now amt ref of
         (Inl e, w', tw', d') \<Rightarrow> False
       | (Inr (t_out, t_in), w', tw', d') \<Rightarrow>
           balance w' = balance w - amt
           \<and> balance tw' = balance tw + amt
           \<and> frozen_balance w' = frozen_balance w
           \<and> frozen_balance tw' = frozen_balance tw
           \<and> total_balance w' + total_balance tw' = total_balance w + total_balance tw
           \<and> transaction_rows d' = transaction_rows d @ [t_out, t_in]
           \<and> wallet t_out = wallet_id w \<and> transaction_type t_out = TTransferOut
           \<and> amount t_out = amt
           \<and> wallet t_in = wallet_id tw \<and> transaction_type t_in = TTransferIn
           \<and> amount t_in = amt
           \<and> (wallet_id w \<noteq> wallet_id tw
                \<and> get_wallet d (wallet_id w) = Some w
                \<and> get_wallet d (wallet_id tw) = Some tw \<longrightarrow>
                get_wallet d' (wallet_id w) = Some w'
                \<and> get_wallet d' (wallet_id tw) = Some tw')"
    using a
    by (simp add: transfer_to_success Let_def total_balance_def create_transaction_rows
          create_transaction_fields save_transaction_rows get_wallet_create_transaction
          save_balance_income_def save_balance_expense_def get_wallet_update_row
          update_wallet_row_transactions)
next
  assume "0 < amt \<and> currency tw \<noteq> currency w"
  then show "transfer_to w tw d now amt ref = (Inl CurrencyMismatch, w, tw, d)"
    by (simp add: transfer_to_def)
next
  assume "amt \<le> 0"
  then show "transfer_to w tw d now amt ref = (Inl InvalidAmount, w, tw, d)"
    by (simp add: transfer_to_def)
qed


lemma worked_lookups:
  "get_wallet bank 11 = Some alice" "get_wallet bank 12 = Some bob" "get_wallet bank 13 = Some carol"
  "wallet_id alice = 11" "wallet_id bob = 12" "wallet_id carol = 13"
  "currency alice = CNY" "currency bob = CNY" "currency carol = USD"
  "balance alice = 100" "balance bob = 50" "balance carol = 20"
  "frozen_balance alice = 0" "frozen_balance bob = 0"
  "can_spend alice 30 = (True, CanSpend)"
  "transaction_rows bank = [payment_row]"
  by (simp_all add: get_wallet_def bank_def alice_def bob_def carol_def new_wallet_def
        can_spend_def)

lemma worked_users:
  "user alice = 101" "user bob = 102" "user carol = 103"
  "wallet_rows bank = [alice, bob, carol]"
  by (simp_all add: alice_def bob_def carol_def new_wallet_def bank_def)

theorem transfer_conservation_witness:
  "(0::int) < 30 \<and> currency bob = currency alice \<and> fst (can_spend alice 30)
   \<and> wallet_id alice \<noteq> wallet_id bob
   \<and> get_wallet bank (wallet_id alice) = Some alice
   \<and> get_wallet bank (wallet_id bob) = Some bob
   \<and> (case transfer_to alice bob bank noon 30 [] of
         (Inl e, w', tw', d') \<Rightarrow> False
       | (Inr (t_out, t_in), w', tw', d') \<Rightarrow>
           balance w' = 70 \<and> balance tw' = 80
           \<and> transaction_rows d' = [payment_row, t_out, t_in]
           \<and> balance_after t_out = 70 \<and> balance_after t_in = 80
           \<and> get_wallet d' 11 = Some w' \<and> get_wallet d' 12 = Some tw')
   \<and> currency carol \<noteq> currency alice
   \<and> transfer_to alice carol bank noon 30 [] = (Inl CurrencyMismatch, alice, carol, bank)
   \<and> transfer_to alice bob bank noon 0 [] = (Inl InvalidAmount, alice, bob, bank)"
  using transfer_conservation
          [where amt = 30 and w = alice and tw = bob and d = bank and now = noon and ref = "[]"]
        transfer_conservation
          [where amt = 30 and w = alice and tw = carol and d = bank and now = noon and ref = "[]"]
        transfer_conservation
          [where amt = 0 and w = alice and tw = bob and d = bank and now = noon and ref = "[]"]
  by (simp add: worked_lookups transfer_to_success Let_def create_transaction_rows
        create_transaction_fields save_transaction_rows)

text \<open>
  The claim as first stated has no condition on the amount. At amount 0 a transfer
  between wallets of different currencies fails with the invalid amount, not with the
  currency mismatch; and between wallets of one currency, although \<open>can_spend\<close>
  allows 0, no row is appended.
\<close>

theorem transfer_zero_amount_counterexample:
  "currency carol \<noteq> currency alice
   \<and> fst (transfer_to alice carol bank noon 0 []) = Inl InvalidAmount
   \<and> fst (transfer_to alice carol bank noon 0 []) \<noteq> Inl CurrencyMismatch
   \<and> currency bob = currency alice
   \<and> fst (can_spend alice 0)
   \<and> transaction_rows (snd (snd (snd (transfer_to alice bob bank noon 0 []))))
        = transaction_rows bank"
  by (simp add: worked_lookups transfer_to_def can_spend_def alice_def new_wallet_def)

section \<open>One ledger row for every change of a balance\<close>

lemma get_wallet_save:
  "get_wallet (save_balance_frozen w d) pk =
     map_option (\<lambda>r. if wallet_id r = wallet_id w
        then r\<lparr>balance := balance w, frozen_balance := frozen_balance w\<rparr> else r)
       (get_wallet d pk)"
  "get_wallet (save_balance_income w d) pk =
     map_option (\<lambda>r. if wallet_id r = wallet_id w
        then r\<lparr>balance := balance w, total_income := total_income w,
               last_transaction_at := last_transaction_at w\<rparr> else r)
       (get_wallet d pk)"
  "get_wallet (save_balance_expense w d) pk =
     map_option (\<lambda>r. if wallet_id r = wallet_id w
        then r\<lparr>balance := balance w, total_expense := total_expense w,
               last_transaction_at := last_transaction_at w\<rparr> else r)
       (get_wallet d pk)"
  "get_wallet (save_wallet_status w d) pk =
     map_option (\<lambda>r. if wallet_id r = wallet_id w
        then r\<lparr>wallet_status := wallet_status w\<rparr> else r)
       (get_wallet d pk)"
  by (simp_all add: save_balance_frozen_def save_balance_income_def save_balance_expense_def
        save_wallet_status_def get_wallet_update_row)

lemma save_transaction_status_simps:
  "get_wallet (save_transaction_status t d) pk = get_wallet d pk"
  "wallet_rows (save_transaction_status t d) = wallet_rows d"
  "transaction_rows (save_transaction_status t d) =
     map (\<lambda>r. if txn_id r = txn_id t then r\<lparr>status := status t\<rparr> else r) (transaction_rows d)"
  by (simp_all add: save_transaction_status_def get_wallet_def)

lemma withdraw_success:
  assumes "0 < a" and "fst (can_spend w a)"
  shows "withdraw w d now a r =
    (let w' = w\<lparr>balance := balance w - a, total_expense := total_expense w + a,
                last_transaction_at := Some now\<rparr>;
         c = create_transaction w' (save_balance_expense w' d) now TWithdraw a r
     in (Inr (fst c), w', snd c))"
proof (cases "can_spend w a")
  case (Pair ok why)
  with assms show ?thesis
    by (simp add: withdraw_def Let_def split: prod.splits)
qed

text \<open>
  Claim C4. Every operation that commits appends exactly one row to the ledger, the
  transfer exactly two, one for each wallet, and a failed operation appends none.
  The \<open>balance_after\<close> of a new row is the balance of the wallet the row belongs
  to, as the operation leaves it: the balance of the object, and of the wallet's row
  when the object was loaded from it (for a transfer, when the two objects were loaded
  from two different rows). A refund changes, besides, only the status of the rows
  with the key of the refunded entry. The rows of \<open>freeze_wallet\<close> and
  \<open>unfreeze_wallet\<close> carry amount 0 and the unchanged balance.
\<close>

theorem one_entry_per_balance_change:
  "(case deposit w d now a r of
      (Inl e, w', d') \<Rightarrow> transaction_rows d' = transaction_rows d
    | (Inr t, w', d') \<Rightarrow>
        transaction_rows d' = transaction_rows d @ [t]
        \<and> wallet t = wallet_id w' \<and> balance_after t = balance w'
        \<and> (get_wallet d (wallet_id w) = Some w \<longrightarrow> get_wallet d' (wallet_id w) = Some w'))
   \<and> (case withdraw w d now a r of
      (Inl e, w', d') \<Rightarrow> transaction_rows d' = transaction_rows d
    | (Inr t, w', d') \<Rightarrow>
        transaction_rows d' = transaction_rows d @ [t]
        \<and> wallet t = wallet_id w' \<and> balance_after t = balance w'
        \<and> (get_wallet d (wallet_id w) = Some w \<longrightarrow> get_wallet d' (wallet_id w) = Some w'))
   \<and> (case freeze_amount w d now a of
      (Inl e, w', d') \<Rightarrow> transaction_rows d' = transaction_rows d
    | (Inr u, w', d') \<Rightarrow>
        length (transaction_rows d') = Suc (length (transaction_rows d))
        \<and> butlast (transaction_rows d') = transaction_rows d
        \<and> wallet (last (transaction_rows d')) = wallet_id w'
        \<and> balance_after (last (transaction_rows d')) = balance w'
        \<and> (get_wallet d (wallet_id w) = Some w \<longrightarrow> get_wallet d' (wallet_id w) = Some w'))
   \<and> (case unfreeze_amount w d now a of
      (Inl e, w', d') \<Rightarrow> transaction_rows d' = transaction_rows d
    | (Inr u, w', d') \<Rightarrow>
        length (transaction_rows d') = Suc (length (transaction_rows d))
        \<and> butlast (transaction_rows d') = transaction_rows d
        \<and> wallet (last (transaction_rows d')) = wallet_id w'
        \<and> balance_after (last (transaction_rows d')) = balance w'
        \<and> (get_wallet d (wallet_id w) = Some w \<longrightarrow> get_wallet d' (wallet_id w) = Some w'))
   \<and> (case transfer_to w tw d now a r of
      (Inl e, w', tw', d') \<Rightarrow> transaction_rows d' = transaction_rows d
    | (Inr (t_out, t_in), w', tw', d') \<Rightarrow>
        transaction_rows d' = transaction_rows d @ [t_out, t_in]
        \<and> wallet t_out = wallet_id w' \<and> balance_after t_out = balance w'
        \<and> wallet t_in = wallet_id tw' \<and> balance_after t_in = balance tw'
        \<and> (wallet_id w \<noteq> wallet_id tw
             \<and> get_wallet d (wallet_id w) = Some w
             \<and> get_wallet d (wallet_id tw) = Some tw \<longrightarrow>
             get_wallet d' (wallet_id w) = Some w'
             \<and> get_wallet d' (wallet_id tw) = Some tw'))
   \<and> (case process_refund t w d now of
      (Inl e, t', w', d') \<Rightarrow> transaction_rows d' = transaction_rows d
    | (Inr t_new, t', w', d') \<Rightarrow>
        length (transaction_rows d') = Suc (length (transaction_rows d))
        \<and> butlast (transaction_rows d') =
              map (\<lambda>r. if txn_id r = txn_id t then r\<lparr>status := Refunded\<rparr> else r)
                (transaction_rows d)
        \<and> last (transaction_rows d') = t_new
        \<and> wallet t_new = wallet_id w' \<and> balance_after t_new = balance w'
        \<and> (get_wallet d (wallet_id w) = Some w \<longrightarrow> get_wallet d' (wallet_id w) = Some w'))
   \<and> (case freeze_wallet w d now of (w', d') \<Rightarrow>
        length (transaction_rows d') = Suc (length (transaction_rows d))
        \<and> butlast (transaction_rows d') = transaction_rows d
        \<and> transaction_type (last (transaction_rows d')) = TFreezeWallet
        \<and> amount (last (transaction_rows d')) = 0
        \<and> balance_after (last (transaction_rows d')) = balance w
        \<and> balance w' = balance w \<and> frozen_balance w' = frozen_balance w)
   \<and> (case unfreeze_wallet w d now of (w', d') \<Rightarrow>
        length (transaction_rows d') = Suc (length (transaction_rows d))
        \<and> butlast (transaction_rows d') = transaction_rows d
        \<and> transaction_type (last (transaction_rows d')) = TUnfreezeWallet
        \<and> amount (last (transaction_rows d')) = 0
        \<and> balance_after (last (transaction_rows d')) = balance w
        \<and> balance w' = balance w \<and> frozen_balance w' = frozen_balance w)"
proof (intro conjI)
  show "case deposit w d now a r of
      (Inl e, w', d') \<Rightarrow> transaction_rows d' = transaction_rows d
    | (Inr t, w', d') \<Rightarrow>
        transaction_rows d' = transaction_rows d @ [t]
        \<and> wallet t = wallet_id w' \<and> balance_after t = balance w'
        \<and> (get_wallet d (wallet_id w) = Some w \<longrightarrow> get_wallet d' (wallet_id w) = Some w')"
    by (simp add: deposit_def Let_def create_transaction_rows create_transaction_fields
          save_transaction_rows get_wallet_create_transaction get_wallet_save case_prod_beta)
next
  show "case withdraw w d now a r of
      (Inl e, w', d') \<Rightarrow> transaction_rows d' = transaction_rows d
    | (Inr t, w', d') \<Rightarrow>
        transaction_rows d' = transaction_rows d @ [t]
        \<and> wallet t = wallet_id w' \<and> balance_after t = balance w'
        \<and> (get_wallet d (wallet_id w) = Some w \<longrightarrow> get_wallet d' (wallet_id w) = Some w')"
  proof (cases "0 < a \<and> fst (can_spend w a)")
    case True
    then show ?thesis
      by (simp add: withdraw_success Let_def create_transaction_rows create_transaction_fields
          save_transaction_rows get_wallet_create_transaction get_wallet_save)
  next
    case False
    then show ?thesis
      by (auto simp: withdraw_def Let_def split: prod.splits)
  qed
next
  show "case freeze_amount w d now a of
      (Inl e, w', d') \<Rightarrow> transaction_rows d' = transaction_rows d
    | (Inr u, w', d') \<Rightarrow>
        length (transaction_rows d') = Suc (length (transaction_rows d))
        \<and> butlast (transaction_rows d') = transaction_rows d
        \<and> wallet (last (transaction_rows d')) = wallet_id w'
        \<and> balance_after (last (transaction_rows d')) = balance w'
        \<and> (get_wallet d (wallet_id w) = Some w \<longrightarrow> get_wallet d' (wallet_id w) = Some w')"
    by (simp add: freeze_amount_def Let_def create_transaction_rows create_transaction_fields
          save_transaction_rows get_wallet_create_transaction get_wallet_save case_prod_beta)
next
  show "case unfreeze_amount w d now a of
      (Inl e, w', d') \<Rightarrow> transaction_rows d' = transaction_rows d
    | (Inr u, w', d') \<Rightarrow>
        length (transaction_rows d') = Suc (length (transaction_rows d))
        \<and> butlast (transaction_rows d') = transaction_rows d
        \<and> wallet (last (transaction_rows d')) = wallet_id w'
        \<and> balance_after (last (transaction_rows d')) = balance w'
        \<and> (get_wallet d (wallet_id w) = Some w \<longrightarrow> get_wallet d' (wallet_id w) = Some w')"
    by (simp add: unfreeze_amount_def Let_def create_transaction_rows create_transaction_fields
          save_transaction_rows get_wallet_create_transaction get_wallet_save case_prod_beta)
next
  show "case transfer_to w tw d now a r of
      (Inl e, w', tw', d') \<Rightarrow> transaction_rows d' = transaction_rows d
    | (Inr (t_out, t_in), w', tw', d') \<Rightarrow>
        transaction_rows d' = transaction_rows d @ [t_out, t_in]
        \<and> wallet t_out = wallet_id w' \<and> balance_after t_out = balance w'
        \<and> wallet t_in = wallet_id tw' \<and> balance_after t_in = balance tw'
        \<and> (wallet_id w \<noteq> wallet_id tw
             \<and> get_wallet d (wallet_id w) = Some w
             \<and> get_wallet d (wallet_id tw) = Some tw \<longrightarrow>
             get_wallet d' (wallet_id w) = Some w'
             \<and> get_wallet d' (wallet_id tw) = Some tw')"
  proof (cases "0 < a \<and> currency tw = currency w \<and> fst (can_spend w a)")
    case True
    then show ?thesis
      by (simp add: transfer_to_success Let_def create_transaction_rows create_transaction_fields
          save_transaction_rows get_wallet_create_transaction get_wallet_save)
  next
    case False
    then show ?thesis
      by (auto simp: transfer_to_def Let_def split: prod.splits)
  qed
next
  show "case process_refund t w d now of
      (Inl e, t', w', d') \<Rightarrow> transaction_rows d' = transaction_rows d
    | (Inr t_new, t', w', d') \<Rightarrow>
        length (transaction_rows d') = Suc (length (transaction_rows d))
        \<and> butlast (transaction_rows d') =
              map (\<lambda>r. if txn_id r = txn_id t then r\<lparr>status := Refunded\<rparr> else r)
                (transaction_rows d)
        \<and> last (transaction_rows d') = t_new
        \<and> wallet t_new = wallet_id w' \<and> balance_after t_new = balance w'
        \<and> (get_wallet d (wallet_id w) = Some w \<longrightarrow> get_wallet d' (wallet_id w) = Some w')"
    by (simp add: process_refund_def Let_def create_transaction_rows create_transaction_fields
          save_transaction_rows get_wallet_create_transaction get_wallet_save
          save_transaction_status_simps comp_def case_prod_beta)
next
  show "case freeze_wallet w d now of (w', d') \<Rightarrow>
        length (transaction_rows d') = Suc (length (transaction_rows d))
        \<and> butlast (transaction_rows d') = transaction_rows d
        \<and> transaction_type (last (transaction_rows d')) = TFreezeWallet
        \<and> amount (last (transaction_rows d')) = 0
        \<and> balance_after (last (transaction_rows d')) = balance w
        \<and> balance w' = balance w \<and> frozen_balance w' = frozen_balance w"
    by (simp add: freeze_wallet_def Let_def create_transaction_rows create_transaction_fields
          save_transaction_rows case_prod_beta)
next
  show "case unfreeze_wallet w d now of (w', d') \<Rightarrow>
        length (transaction_rows d') = Suc (length (transaction_rows d))
        \<and> butlast (transaction_rows d') = transaction_rows d
        \<and> transaction_type (last (transaction_rows d')) = TUnfreezeWallet
        \<and> amount (last (transaction_rows d')) = 0
        \<and> balance_after (last (transaction_rows d')) = balance w
        \<and> balance w' = balance w \<and> frozen_balance w' = frozen_balance w"
    by (simp add: unfreeze_wallet_def Let_def create_transaction_rows create_transaction_fields
          save_transaction_rows case_prod_beta)
qed


theorem one_entry_per_balance_change_witness:
  "get_wallet bank (wallet_id alice) = Some alice
   \<and> get_wallet bank (wallet_id bob) = Some bob
   \<and> wallet_id alice \<noteq> wallet_id bob
   \<and> (case deposit alice bank noon 100 [] of
         (Inl e, w', d') \<Rightarrow> False
       | (Inr t, w', d') \<Rightarrow>
           balance w' = 200 \<and> balance_after t = 200
           \<and> transaction_rows d' = [payment_row, t]
           \<and> get_wallet d' (wallet_id alice) = Some w')
   \<and> (case transfer_to alice bob bank noon 30 [] of
         (Inl e, w', tw', d') \<Rightarrow> False
       | (Inr (t_out, t_in), w', tw', d') \<Rightarrow>
           transaction_rows d' = [payment_row, t_out, t_in]
           \<and> balance w' = 70 \<and> balance_after t_out = 70
           \<and> balance tw' = 80 \<and> balance_after t_in = 80
           \<and> get_wallet d' (wallet_id alice) = Some w'
           \<and> get_wallet d' (wallet_id bob) = Some tw')
   \<and> (case freeze_wallet alice bank noon of (w', d') \<Rightarrow>
         amount (last (transaction_rows d')) = 0
         \<and> balance_after (last (transaction_rows d')) = 100 \<and> balance w' = 100)"
  using one_entry_per_balance_change
          [where w = alice and tw = bob and d = bank and now = noon and a = 100 and r = "[]"
             and t = payment_row]
        one_entry_per_balance_change
          [where w = alice and tw = bob and d = bank and now = noon and a = 30 and r = "[]"
             and t = payment_row]
  by (simp add: worked_lookups transfer_to_success deposit_def freeze_wallet_def Let_def
        case_prod_beta create_transaction_rows create_transaction_fields save_transaction_rows)

section \<open>Refunds\<close>

lemma process_refund_refused:
  "\<not> can_refund t now \<Longrightarrow> process_refund t w d now = (Inl RefundNotSupported, t, w, d)"
  by (simp add: process_refund_def)

lemma process_refund_success:
  assumes "can_refund t now"
  shows "process_refund t w d now =
    (let w' = w\<lparr>balance := balance w + amount t, total_income := total_income w + amount t,
                last_transaction_at := Some now\<rparr>;
         t' = t\<lparr>status := Refunded\<rparr>;
         c = create_transaction w' (save_transaction_status t' (save_balance_income w' d))
               now TRefund (amount t) (str_nat (txn_id t))
     in (Inr (fst c), t', w', snd c))"
  using assms by (simp add: process_refund_def Let_def case_prod_beta)

lemma process_refund_refunded:
  "status t = Refunded \<Longrightarrow> process_refund t w d now = (Inl RefundNotSupported, t, w, d)"
  by (simp add: process_refund_def can_refund_def)

lemma process_refund_of_refund:
  "transaction_type t = TRefund \<Longrightarrow>
     process_refund t w d now = (Inl RefundNotSupported, t, w, d)"
  by (simp add: process_refund_def can_refund_def)

lemma can_refund_iff:
  "can_refund t now \<longleftrightarrow>
     transaction_type t = TPayment \<and> status t = Completed
     \<and> to_micros now - to_micros (created_at t) \<le> 30 * micros_per_day"
  by (auto simp: can_refund_def)

lemma wallet_rows_save_balance_income:
  "wallet_rows (save_balance_income w d) =
     map (\<lambda>r. if wallet_id r = wallet_id w
               then r\<lparr>balance := balance w, total_income := total_income w,
                      last_transaction_at := last_transaction_at w\<rparr>
               else r) (wallet_rows d)"
  by (simp add: save_balance_income_def update_wallet_row_def)

text \<open>
  Claim C5. \<open>process_refund\<close> succeeds exactly when the entry is a payment, its
  status is completed and it was created at most 30 days before the clock. When it
  succeeds, the wallet's balance and income total grow by the entry's amount, in the
  object and in every row of the wallet table with the wallet's key (so the row the
  object was loaded from is the object afterwards); the entry's status becomes
  refunded, in the object and in the rows with its key; and one refund row is
  appended, with the entry's amount, the credited balance, and a \<open>reference_id\<close>
  that is the decimal text of the entry's key. When it fails, the error is the
  refusal of the refund and nothing changes. After a successful refund a second refund
  of the entry is such a failure, whether it is tried on the same object or on a row
  with that key loaded again.
\<close>

theorem refund_only_once:
  "(\<not> isl (fst (process_refund t w d now)) \<longleftrightarrow>
      transaction_type t = TPayment \<and> status t = Completed
      \<and> to_micros now - to_micros (created_at t) \<le> 30 * micros_per_day)
   \<and> (case process_refund t w d now of
        (Inl e, t', w', d') \<Rightarrow> e = RefundNotSupported \<and> t' = t \<and> w' = w \<and> d' = d
      | (Inr t_new, t', w', d') \<Rightarrow>
          balance w' = balance w + amount t
          \<and> total_income w' = total_income w + amount t
          \<and> frozen_balance w' = frozen_balance w
          \<and> wallet_rows d' =
               map (\<lambda>r. if wallet_id r = wallet_id w
                         then r\<lparr>balance := balance w + amount t,
                                total_income := total_income w + amount t,
                                last_transaction_at := Some now\<rparr>
                         else r) (wallet_rows d)
          \<and> (get_wallet d (wallet_id w) = Some w \<longrightarrow> get_wallet d' (wallet_id w) = Some w')
          \<and> status t' = Refunded
          \<and> transaction_rows d' =
               map (\<lambda>r. if txn_id r = txn_id t then r\<lparr>status := Refunded\<rparr> else r)
                 (transaction_rows d) @ [t_new]
          \<and> transaction_type t_new = TRefund
          \<and> amount t_new = amount t
          \<and> balance_after t_new = balance w + amount t
          \<and> wallet t_new = wallet_id w
          \<and> reference_id t_new = str_nat (txn_id t)
          \<and> process_refund t' w' d' now' = (Inl RefundNotSupported, t', w', d')
          \<and> (\<forall>row \<in> set (transaction_rows d'). txn_id row = txn_id t \<longrightarrow>
                process_refund row w2 d' now' = (Inl RefundNotSupported, row, w2, d')))"
proof (cases "can_refund t now")
  case True
  then have "transaction_type t = TPayment \<and> status t = Completed
      \<and> to_micros now - to_micros (created_at t) \<le> 30 * micros_per_day"
    by (simp add: can_refund_iff)
  with True show ?thesis
    by (auto simp: process_refund_success Let_def create_transaction_rows
          create_transaction_fields create_transaction_wallets save_transaction_rows
          save_transaction_status_simps wallet_rows_save_balance_income
          get_wallet_create_transaction get_wallet_save
          process_refund_refunded process_refund_of_refund)
next
  case False
  then have "\<not> (transaction_type t = TPayment \<and> status t = Completed
      \<and> to_micros now - to_micros (created_at t) \<le> 30 * micros_per_day)"
    by (simp add: can_refund_iff)
  with False show ?thesis
    by (simp add: process_refund_refused)
qed

lemma worked_payment_row:
  "txn_id payment_row = 41" "amount payment_row = 50" "wallet payment_row = 11"
  "transaction_type payment_row = TPayment" "status payment_row = Completed"
  by (simp_all add: payment_row_def)

lemma worked_key_text: "str_nat 41 = ''41''"
  by code_simp

lemma worked_refund_clock:
  "can_refund payment_row noon"
  "can_refund payment_row (noon\<lparr>dt_day := 31\<rparr>)"
  "\<not> can_refund payment_row (noon\<lparr>dt_month := 4, dt_day := 1\<rparr>)"
  "to_micros (noon\<lparr>dt_day := 31\<rparr>) - to_micros (created_at payment_row) = 30 * micros_per_day"
  "to_micros (noon\<lparr>dt_month := 4, dt_day := 1\<rparr>) - to_micros (created_at payment_row)
     = 31 * micros_per_day"
  by (simp_all add: can_refund_def payment_row_def noon_def to_micros_def ymd2ord_def
        days_before_year_def days_before_month_def days_in_month_table_def is_leap_def
        micros_per_day_def)

theorem refund_only_once_witness:
  "get_wallet bank (wallet_id alice) = Some alice
   \<and> (case process_refund payment_row alice bank noon of
      (Inl e, t', w', d') \<Rightarrow> False
    | (Inr t_new, t', w', d') \<Rightarrow>
        balance w' = 150 \<and> status t' = Refunded
        \<and> map balance (wallet_rows d') = [150, 50, 20]
        \<and> get_wallet d' (wallet_id alice) = Some w'
        \<and> transaction_rows d' = [payment_row\<lparr>status := Refunded\<rparr>, t_new]
        \<and> reference_id t_new = ''41''
        \<and> payment_row\<lparr>status := Refunded\<rparr> \<in> set (transaction_rows d')
        \<and> txn_id (payment_row\<lparr>status := Refunded\<rparr>) = txn_id payment_row
        \<and> process_refund t' w' d' noon = (Inl RefundNotSupported, t', w', d')
        \<and> process_refund (payment_row\<lparr>status := Refunded\<rparr>) alice d' noon
             = (Inl RefundNotSupported, payment_row\<lparr>status := Refunded\<rparr>, alice, d'))
   \<and> \<not> isl (fst (process_refund payment_row alice bank (noon\<lparr>dt_day := 31\<rparr>)))
   \<and> process_refund payment_row alice bank (noon\<lparr>dt_month := 4, dt_day := 1\<rparr>)
        = (Inl RefundNotSupported, payment_row, alice, bank)"
  using refund_only_once
          [where t = payment_row and w = alice and d = bank and now = noon and now' = noon
             and ?w2.0 = alice]
        refund_only_once
          [where t = payment_row and w = alice and d = bank and now = "noon\<lparr>dt_day := 31\<rparr>"]
        refund_only_once
          [where t = payment_row and w = alice and d = bank
             and now = "noon\<lparr>dt_month := 4, dt_day := 1\<rparr>"]
  by (simp add: worked_refund_clock worked_lookups worked_payment_row worked_key_text
        worked_users
        process_refund_success process_refund_refused
        process_refund_refunded Let_def create_transaction_rows create_transaction_fields
        save_transaction_rows save_transaction_status_simps)

section \<open>Closed wallets\<close>









section \<open>One wallet for each user\<close>

lemma filter_key_distinct:
  "distinct (map f xs) \<Longrightarrow> filter (\<lambda>x. f x = u) xs = [] \<or> (\<exists>w. filter (\<lambda>x. f x = u) xs = [w])"
proof (induction xs)
  case Nil
  then show ?case by simp
next
  case (Cons x xs)
  show ?case
  proof (cases "f x = u")
    case True
    from Cons.prems have "f x \<notin> f ` set xs" by simp
    with True have "\<forall>y \<in> set xs. f y \<noteq> u" by blast
    then have "filter (\<lambda>x. f x = u) xs = []" by (simp add: filter_empty_conv)
    with True show ?thesis by simp
  next
    case False
    with Cons show ?thesis by simp
  qed
qed

text \<open>
  Claim C8, as amended. The uniqueness is on the owner alone, not on the pair of owner
  and currency. In a table with at most one wallet for each user,
  \<open>get_or_create\<close> for a user never fails and leaves such a table: when the user
  has a wallet it returns that wallet, whatever its currency, and changes nothing;
  when the user has none it appends one wallet with the given currency and zero
  balances and totals. Afterwards the user has exactly that one wallet. An insert for a
  user who already has a wallet fails with the integrity error, in every currency, so
  no user holds two wallets.
\<close>

theorem one_wallet_per_user:
  assumes "unique_users d"
  shows "(case objects_get_or_create d u c of
            (Inl e, d') \<Rightarrow> False
          | (Inr (w, created), d') \<Rightarrow>
              unique_users d' \<and> user w = u \<and> w \<in> set (wallet_rows d')
              \<and> filter (\<lambda>r. user r = u) (wallet_rows d') = [w]
              \<and> (if created
                  then \<not> list_ex (\<lambda>r. user r = u) (wallet_rows d)
                       \<and> wallet_rows d' = wallet_rows d @ [w]
                       \<and> currency w = c \<and> balance w = 0 \<and> frozen_balance w = 0
                       \<and> total_income w = 0 \<and> total_expense w = 0
                  else d' = d))
         \<and> (list_ex (\<lambda>r. user r = u) (wallet_rows d) \<longrightarrow>
               objects_create d u c = (Inl IntegrityError, d))"
proof -
  from assms have dist: "distinct (map user (wallet_rows d))"
    by (simp add: unique_users_def)
  have ic: "list_ex (\<lambda>r. user r = u) (wallet_rows d) \<longrightarrow>
               objects_create d u c = (Inl IntegrityError, d)"
    by (simp add: objects_create_def)
  from filter_key_distinct [OF dist, of u]
  consider "filter (\<lambda>r. user r = u) (wallet_rows d) = []"
    | w where "filter (\<lambda>r. user r = u) (wallet_rows d) = [w]"
    by blast
  then have "case objects_get_or_create d u c of
            (Inl e, d') \<Rightarrow> False
          | (Inr (w, created), d') \<Rightarrow>
              unique_users d' \<and> user w = u \<and> w \<in> set (wallet_rows d')
              \<and> filter (\<lambda>r. user r = u) (wallet_rows d') = [w]
              \<and> (if created
                  then \<not> list_ex (\<lambda>r. user r = u) (wallet_rows d)
                       \<and> wallet_rows d' = wallet_rows d @ [w]
                       \<and> currency w = c \<and> balance w = 0 \<and> frozen_balance w = 0
                       \<and> total_income w = 0 \<and> total_expense w = 0
                  else d' = d)"
  proof cases
    case 1
    then have none: "\<forall>r \<in> set (wallet_rows d). user r \<noteq> u"
      by (simp add: filter_empty_conv)
    then have "\<not> list_ex (\<lambda>r. user r = u) (wallet_rows d)"
      by (simp add: list_ex_iff)
    with 1 none dist show ?thesis
      by (auto simp: objects_get_or_create_def objects_create_def Let_def new_wallet_def
            unique_users_def)
  next
    case 2
    then have "w \<in> set (filter (\<lambda>r. user r = u) (wallet_rows d))" by simp
    then have "w \<in> set (wallet_rows d)" "user w = u" by simp_all
    with 2 assms show ?thesis
      by (simp add: objects_get_or_create_def)
  qed
  with ic show ?thesis by blast
qed


theorem one_wallet_per_user_witness:
  "unique_users bank
   \<and> objects_get_or_create bank 101 USD = (Inr (alice, False), bank)
   \<and> objects_get_or_create bank 104 USD
        = (Inr (new_wallet 14 104 USD, True),
           bank\<lparr>wallet_rows := [alice, bob, carol, new_wallet 14 104 USD]\<rparr>)
   \<and> list_ex (\<lambda>r. user r = 101) (wallet_rows bank)
   \<and> objects_create bank 101 USD = (Inl IntegrityError, bank)"
proof -
  have u: "unique_users bank"
    by (simp add: unique_users_def worked_users)
  show ?thesis
    using one_wallet_per_user [OF u, where u = 101 and c = USD]
          one_wallet_per_user [OF u, where u = 104 and c = USD]
    by (simp add: u worked_users worked_lookups objects_get_or_create_def objects_create_def
          next_pk_def Let_def)
qed

text \<open>
  The claim as first stated gives one owner a wallet for each currency. User 101 owns
  a CNY wallet: \<open>get_or_create\<close> with USD returns the CNY wallet and creates
  nothing, and an insert of a USD wallet for the user is refused.
\<close>

theorem second_currency_counterexample:
  "objects_get_or_create bank 101 USD = (Inr (alice, False), bank)
   \<and> user alice = 101 \<and> currency alice \<noteq> USD
   \<and> objects_create bank 101 USD = (Inl IntegrityError, bank)"
  by (simp add: worked_users worked_lookups objects_get_or_create_def objects_create_def)

section \<open>Period aggregates\<close>

lemma expense_lookup_kind: "k \<in> set expense_lookup \<longleftrightarrow> spent_kind k"
  by (auto simp: expense_lookup_def spent_kind_def)

lemma failure_simps:
  "failure (Inl e) = Some e" "failure (Inr v) = None"
  by (simp_all add: failure_def)

lemma can_spend_limits:
  "can_spend (w\<lparr>daily_limit := l1, monthly_limit := l2\<rparr>) a = can_spend w a"
  by (simp add: can_spend_def)

text \<open>
  Claim C9. \<open>get_daily_spent\<close> is \<open>dailySpent\<close>: the sum of the amounts of exactly
  the wallet's withdraw, transfer-out and payment rows created on the date (today when
  no date is given). \<open>get_monthly_spent\<close> is \<open>monthlySpent\<close>, the same sum over
  the rows created in the month of the year, for every year and month other than 0
  (a missing or zero argument stands for the current one). Both are functions of the
  wallet's key and the ledger alone, so nothing is kept on the wallet. And no operation
  is blocked by them: whether \<open>deposit\<close>, \<open>withdraw\<close>, \<open>freeze_amount\<close>,
  \<open>unfreeze_amount\<close>, \<open>transfer_to\<close> or \<open>process_refund\<close> fails, and with which
  error, does not depend on the limits of the wallets nor on the rows of the ledger.
\<close>

theorem period_aggregates:
  "get_daily_spent self d now (Some day)
       = dailySpent (wallet_id self) (transaction_rows d) day
   \<and> get_daily_spent self d now None
       = dailySpent (wallet_id self) (transaction_rows d) (date_of now)
   \<and> (y \<noteq> 0 \<and> m \<noteq> 0 \<longrightarrow>
        get_monthly_spent self d now (Some y) (Some m)
          = monthlySpent (wallet_id self) (transaction_rows d) y m)
   \<and> get_monthly_spent self d now None None
       = monthlySpent (wallet_id self) (transaction_rows d) (dt_year now) (dt_month now)
   \<and> failure (fst (deposit (self\<lparr>daily_limit := l1, monthly_limit := l2\<rparr>)
                      (d\<lparr>transaction_rows := ledger\<rparr>) now a r))
       = failure (fst (deposit self d now a r))
   \<and> failure (fst (withdraw (self\<lparr>daily_limit := l1, monthly_limit := l2\<rparr>)
                      (d\<lparr>transaction_rows := ledger\<rparr>) now a r))
       = failure (fst (withdraw self d now a r))
   \<and> failure (fst (freeze_amount (self\<lparr>daily_limit := l1, monthly_limit := l2\<rparr>)
                      (d\<lparr>transaction_rows := ledger\<rparr>) now a))
       = failure (fst (freeze_amount self d now a))
   \<and> failure (fst (unfreeze_amount (self\<lparr>daily_limit := l1, monthly_limit := l2\<rparr>)
                      (d\<lparr>transaction_rows := ledger\<rparr>) now a))
       = failure (fst (unfreeze_amount self d now a))
   \<and> failure (fst (transfer_to (self\<lparr>daily_limit := l1, monthly_limit := l2\<rparr>)
                      (tw\<lparr>daily_limit := l3, monthly_limit := l4\<rparr>)
                      (d\<lparr>transaction_rows := ledger\<rparr>) now a r))
       = failure (fst (transfer_to self tw d now a r))
   \<and> failure (fst (process_refund t (self\<lparr>daily_limit := l1, monthly_limit := l2\<rparr>)
                      (d\<lparr>transaction_rows := ledger\<rparr>) now))
       = failure (fst (process_refund t self d now))"
proof (intro conjI impI)
  show "get_daily_spent self d now (Some day)
       = dailySpent (wallet_id self) (transaction_rows d) day"
    by (simp add: get_daily_spent_def dailySpent_def expense_lookup_kind sum_list_map_filter')
  show "get_daily_spent self d now None
       = dailySpent (wallet_id self) (transaction_rows d) (date_of now)"
    by (simp add: get_daily_spent_def dailySpent_def expense_lookup_kind sum_list_map_filter')
  show "get_monthly_spent self d now (Some y) (Some m)
          = monthlySpent (wallet_id self) (transaction_rows d) y m"
    if "y \<noteq> 0 \<and> m \<noteq> 0"
    using that
    by (simp add: get_monthly_spent_def monthlySpent_def falsy_def expense_lookup_kind
          sum_list_map_filter')
  show "get_monthly_spent self d now None None
       = monthlySpent (wallet_id self) (transaction_rows d) (dt_year now) (dt_month now)"
    by (simp add: get_monthly_spent_def monthlySpent_def falsy_def expense_lookup_kind
          sum_list_map_filter')
  show "failure (fst (deposit (self\<lparr>daily_limit := l1, monthly_limit := l2\<rparr>)
                      (d\<lparr>transaction_rows := ledger\<rparr>) now a r))
       = failure (fst (deposit self d now a r))"
    by (simp add: deposit_def Let_def case_prod_beta failure_simps)
  show "failure (fst (withdraw (self\<lparr>daily_limit := l1, monthly_limit := l2\<rparr>)
                      (d\<lparr>transaction_rows := ledger\<rparr>) now a r))
       = failure (fst (withdraw self d now a r))"
    by (simp add: withdraw_def Let_def case_prod_beta failure_simps can_spend_limits)
  show "failure (fst (freeze_amount (self\<lparr>daily_limit := l1, monthly_limit := l2\<rparr>)
                      (d\<lparr>transaction_rows := ledger\<rparr>) now a))
       = failure (fst (freeze_amount self d now a))"
    by (simp add: freeze_amount_def Let_def case_prod_beta failure_simps)
  show "failure (fst (unfreeze_amount (self\<lparr>daily_limit := l1, monthly_limit := l2\<rparr>)
                      (d\<lparr>transaction_rows := ledger\<rparr>) now a))
       = failure (fst (unfreeze_amount self d now a))"
    by (simp add: unfreeze_amount_def Let_def case_prod_beta failure_simps)
  show "failure (fst (transfer_to (self\<lparr>daily_limit := l1, monthly_limit := l2\<rparr>)
                      (tw\<lparr>daily_limit := l3, monthly_limit := l4\<rparr>)
                      (d\<lparr>transaction_rows := ledger\<rparr>) now a r))
       = failure (fst (transfer_to self tw d now a r))"
    by (simp add: transfer_to_def Let_def case_prod_beta failure_simps can_spend_limits)
  show "failure (fst (process_refund t (self\<lparr>daily_limit := l1, monthly_limit := l2\<rparr>)
                      (d\<lparr>transaction_rows := ledger\<rparr>) now))
       = failure (fst (process_refund t self d now))"
    by (simp add: process_refund_def Let_def case_prod_beta failure_simps)
qed

theorem period_aggregates_witness:
  "(2024::int) \<noteq> 0 \<and> (3::int) \<noteq> 0
   \<and> get_monthly_spent alice busy_bank noon (Some 2024) (Some 3) = 70
   \<and> monthlySpent (wallet_id alice) (transaction_rows busy_bank) 2024 3 = 70
   \<and> get_daily_spent alice busy_bank noon (Some (2024, 3, 1)) = 50
   \<and> get_daily_spent alice busy_bank noon None = 20
   \<and> failure (fst (withdraw (alice\<lparr>daily_limit := 10, monthly_limit := 10\<rparr>)
                      busy_bank noon 30 [])) = None"
  using period_aggregates
          [where self = alice and d = busy_bank and now = noon and y = 2024 and m = 3
             and day = "(2024, 3, 1)" and ?l1.0 = 10 and ?l2.0 = 10 and a = 30 and r = "[]"
             and ledger = "transaction_rows busy_bank"]
  by (simp add: dailySpent_def monthlySpent_def spent_kind_def busy_bank_def
        payment_row_def noon_def date_of_def worked_lookups withdraw_def Let_def
        case_prod_beta failure_def)

section \<open>Balances never go negative\<close>

lemma balances_nonneg_update:
  assumes "balances_nonneg d"
    and "\<And>r. 0 \<le> balance r \<and> 0 \<le> frozen_balance r \<Longrightarrow>
               0 \<le> balance (f r) \<and> 0 \<le> frozen_balance (f r)"
  shows "balances_nonneg (update_wallet_row pk f d)"
  using assms by (auto simp: balances_nonneg_def update_wallet_row_def list_all_iff)

lemma balances_nonneg_save:
  "balances_nonneg d \<Longrightarrow> 0 \<le> balance w \<Longrightarrow> 0 \<le> frozen_balance w \<Longrightarrow>
     balances_nonneg (save_balance_frozen w d)"
  "balances_nonneg d \<Longrightarrow> 0 \<le> balance w \<Longrightarrow> balances_nonneg (save_balance_income w d)"
  "balances_nonneg d \<Longrightarrow> 0 \<le> balance w \<Longrightarrow> balances_nonneg (save_balance_expense w d)"
  by (simp_all add: save_balance_frozen_def save_balance_income_def save_balance_expense_def
        balances_nonneg_update)

lemma balances_nonneg_other_table:
  "balances_nonneg (snd (create_transaction w d now ty a r)) = balances_nonneg d"
  "balances_nonneg (save_transaction_status t d) = balances_nonneg d"
  by (simp_all add: balances_nonneg_def create_transaction_wallets save_transaction_status_simps)

lemma amounts_nonneg_create:
  "amounts_nonneg (snd (create_transaction w d now ty a r)) \<longleftrightarrow> amounts_nonneg d \<and> 0 \<le> a"
  by (simp add: amounts_nonneg_def create_transaction_rows create_transaction_fields)

lemma amounts_nonneg_save:
  "amounts_nonneg (save_balance_frozen w d) = amounts_nonneg d"
  "amounts_nonneg (save_balance_income w d) = amounts_nonneg d"
  "amounts_nonneg (save_balance_expense w d) = amounts_nonneg d"
  by (simp_all add: amounts_nonneg_def save_transaction_rows)

lemma amounts_status_update:
  "list_all (\<lambda>t. 0 \<le> amount t) (map (\<lambda>r. if txn_id r = k then r\<lparr>status := s\<rparr> else r) xs)
     = list_all (\<lambda>t. 0 \<le> amount t) xs"
  by (induction xs) simp_all

lemma amounts_nonneg_save_status:
  "amounts_nonneg (save_transaction_status t d) = amounts_nonneg d"
  by (simp add: amounts_nonneg_def save_transaction_status_simps amounts_status_update)

lemma get_wallet_nonneg:
  "get_wallet d pk = Some w \<Longrightarrow> balances_nonneg d \<Longrightarrow> 0 \<le> balance w \<and> 0 \<le> frozen_balance w"
  by (auto simp: get_wallet_def balances_nonneg_def list_all_iff find_Some_iff)

lemma get_transaction_nonneg:
  "get_transaction d pk = Some t \<Longrightarrow> amounts_nonneg d \<Longrightarrow> 0 \<le> amount t"
  by (auto simp: get_transaction_def amounts_nonneg_def list_all_iff find_Some_iff)

lemmas keep_simps =
  Let_def case_prod_beta balances_nonneg_other_table amounts_nonneg_create amounts_nonneg_save
  amounts_nonneg_save_status
  balances_nonneg_save

lemma deposit_keeps:
  assumes "balances_nonneg d" and "amounts_nonneg d" and "0 \<le> balance w"
  shows "balances_nonneg (snd (snd (deposit w d now a r)))
       \<and> amounts_nonneg (snd (snd (deposit w d now a r)))"
  using assms by (simp add: deposit_def keep_simps)

lemma withdraw_keeps:
  assumes "balances_nonneg d" and "amounts_nonneg d"
  shows "balances_nonneg (snd (snd (withdraw w d now a r)))
       \<and> amounts_nonneg (snd (snd (withdraw w d now a r)))"
  using assms by (simp add: withdraw_def can_spend_def keep_simps)

lemma freeze_amount_keeps:
  assumes "balances_nonneg d" and "amounts_nonneg d" and "0 \<le> frozen_balance w"
  shows "balances_nonneg (snd (snd (freeze_amount w d now a)))
       \<and> amounts_nonneg (snd (snd (freeze_amount w d now a)))"
  using assms by (simp add: freeze_amount_def keep_simps)

lemma unfreeze_amount_keeps:
  assumes "balances_nonneg d" and "amounts_nonneg d" and "0 \<le> balance w"
  shows "balances_nonneg (snd (snd (unfreeze_amount w d now a)))
       \<and> amounts_nonneg (snd (snd (unfreeze_amount w d now a)))"
  using assms by (simp add: unfreeze_amount_def keep_simps)

lemma transfer_to_keeps:
  assumes "balances_nonneg d" and "amounts_nonneg d" and "0 \<le> balance tw"
  shows "balances_nonneg (snd (snd (snd (transfer_to w tw d now a r))))
       \<and> amounts_nonneg (snd (snd (snd (transfer_to w tw d now a r))))"
  using assms by (simp add: transfer_to_def can_spend_def keep_simps)

lemma process_refund_keeps:
  assumes "balances_nonneg d" and "amounts_nonneg d" and "0 \<le> balance w" and "0 \<le> amount t"
  shows "balances_nonneg (snd (snd (snd (process_refund t w d now))))
       \<and> amounts_nonneg (snd (snd (snd (process_refund t w d now))))"
  using assms by (simp add: process_refund_def keep_simps)

lemma apply_operation_keeps:
  assumes "balances_nonneg d" and "amounts_nonneg d"
  shows "balances_nonneg (apply_operation d x) \<and> amounts_nonneg (apply_operation d x)"
proof (cases x)
  case (Pair now op)
  show ?thesis
  proof (cases op)
    case (OpDeposit pk a)
    with Pair assms show ?thesis
      by (auto split: option.splits dest: get_wallet_nonneg simp: deposit_keeps)
  next
    case (OpWithdraw pk a)
    with Pair assms show ?thesis
      by (auto split: option.splits simp: withdraw_keeps)
  next
    case (OpFreezeAmount pk a)
    with Pair assms show ?thesis
      by (auto split: option.splits dest: get_wallet_nonneg simp: freeze_amount_keeps)
  next
    case (OpUnfreezeAmount pk a)
    with Pair assms show ?thesis
      by (auto split: option.splits dest: get_wallet_nonneg simp: unfreeze_amount_keeps)
  next
    case (OpTransferTo pk tpk a)
    with Pair assms show ?thesis
      by (auto split: option.splits dest: get_wallet_nonneg simp: transfer_to_keeps)
  next
    case (OpProcessRefund pk)
    show ?thesis
    proof (cases "get_transaction d pk")
      case None
      with Pair OpProcessRefund assms show ?thesis by simp
    next
      case (Some t)
      note t = this
      show ?thesis
      proof (cases "get_wallet d (wallet t)")
        case None
        with Pair OpProcessRefund t assms show ?thesis by simp
      next
        case (Some w)
        from get_wallet_nonneg [OF Some assms(1)] have "0 \<le> balance w" by simp
        moreover from get_transaction_nonneg [OF t assms(2)] have "0 \<le> amount t" .
        ultimately show ?thesis
          using Pair OpProcessRefund t Some process_refund_keeps [OF assms, of w t now]
          by simp
      qed
    qed
  qed
qed

text \<open>
  Claim C1. Start from a database in which every wallet has a balance and a frozen
  balance of at least 0 and every ledger row an amount of at least 0 (the validators
  of the three columns). Run any sequence of deposits, withdrawals, freezes and
  unfreezes of amounts, transfers and refunds, each at its own time, on wallets and
  entries loaded by key. Then in every state the sequence goes through, the one after
  each operation that commits included, every wallet has a balance and a frozen
  balance of at least 0.
\<close>

theorem balances_never_negative:
  assumes "balances_nonneg d" and "amounts_nonneg d"
  shows "\<forall>s \<in> set (trace d ops). balances_nonneg s"
  using assms
proof (induction ops arbitrary: d)
  case Nil
  then show ?case by simp
next
  case (Cons x xs)
  from apply_operation_keeps [OF Cons.prems, of x]
  have "\<forall>s \<in> set (trace (apply_operation d x) xs). balances_nonneg s"
    using Cons.IH by blast
  with Cons.prems show ?case by simp
qed


lemma worked_bank_ok: "balances_nonneg bank" "amounts_nonneg bank"
  by (simp_all add: balances_nonneg_def amounts_nonneg_def bank_def alice_def bob_def carol_def
        new_wallet_def payment_row_def)

lemma worked_trace:
  "map (\<lambda>r. (balance r, frozen_balance r)) (wallet_rows (last (trace bank
          [(noon, OpDeposit 11 5), (noon, OpWithdraw 11 500), (noon, OpTransferTo 11 12 30),
           (noon, OpFreezeAmount 12 80), (noon, OpUnfreezeAmount 12 100),
           (noon, OpProcessRefund 41)]))) = [(125, 0), (0, 80), (20, 0)]"
  by code_simp

theorem balances_never_negative_witness:
  "balances_nonneg bank \<and> amounts_nonneg bank
   \<and> list_all balances_nonneg (trace bank
          [(noon, OpDeposit 11 5), (noon, OpWithdraw 11 500), (noon, OpTransferTo 11 12 30),
           (noon, OpFreezeAmount 12 80), (noon, OpUnfreezeAmount 12 100),
           (noon, OpProcessRefund 41)])
   \<and> map (\<lambda>r. (balance r, frozen_balance r)) (wallet_rows (last (trace bank
          [(noon, OpDeposit 11 5), (noon, OpWithdraw 11 500), (noon, OpTransferTo 11 12 30),
           (noon, OpFreezeAmount 12 80), (noon, OpUnfreezeAmount 12 100),
           (noon, OpProcessRefund 41)]))) = [(125, 0), (0, 80), (20, 0)]"
  using balances_never_negative [OF worked_bank_ok, where ops =
          "[(noon, OpDeposit 11 5), (noon, OpWithdraw 11 500), (noon, OpTransferTo 11 12 30),
           (noon, OpFreezeAmount 12 80), (noon, OpUnfreezeAmount 12 100),
           (noon, OpProcessRefund 41)]"]
        worked_bank_ok worked_trace
  unfolding list_all_iff by blast

end
